theory Spec2Isabelle
  imports Complex_Main "HOL-Library.Sublist"
begin

section \<open>Python strings\<close>

text \<open>
  A text is a list of characters, one \<^typ>\<open>char\<close> for each character of the Python
  string, so that \<open>length\<close> is Python's \<open>len\<close>. A \<^typ>\<open>char\<close> is one of the 256
  characters from U+0000 to U+00FF, and \<open>code\<close> is its code point. The character
  classes and the case maps below are Python's on these characters.
\<close>

definition code :: "char \<Rightarrow> nat" where
  "code c = of_char c"

text \<open>
  The white space of \<open>str.strip\<close> and \<open>str.split\<close>: the space, the controls from tab to
  carriage return, the four separators from U+001C to U+001F, the next-line control
  U+0085 and the no-break space U+00A0.
\<close>

definition isspace :: "char \<Rightarrow> bool" where
  "isspace c = (code c = 32 \<or> (9 \<le> code c \<and> code c \<le> 13) \<or> (28 \<le> code c \<and> code c \<le> 31) \<or>
     code c = 133 \<or> code c = 160)"

text \<open>
  The capital letters are A to Z and the accented capitals from U+00C0 to U+00DE
  without the multiplication sign. The small letters are a to z, the two ordinal
  indicators, the micro sign, and the letters from U+00DF to U+00FF without the
  division sign.
\<close>

definition isupper :: "char \<Rightarrow> bool" where
  "isupper c = ((65 \<le> code c \<and> code c \<le> 90) \<or> (192 \<le> code c \<and> code c \<le> 214) \<or>
     (216 \<le> code c \<and> code c \<le> 222))"

definition islower :: "char \<Rightarrow> bool" where
  "islower c = ((97 \<le> code c \<and> code c \<le> 122) \<or> code c = 170 \<or> code c = 181 \<or> code c = 186 \<or>
     (223 \<le> code c \<and> code c \<le> 246) \<or> (248 \<le> code c \<and> code c \<le> 255))"

text \<open>Every letter of this range is cased, so \<open>isalpha\<close> and \<open>iscased\<close> are the same set.\<close>

definition isalpha :: "char \<Rightarrow> bool" where
  "isalpha c = (isupper c \<or> islower c)"

definition iscased :: "char \<Rightarrow> bool" where
  "iscased c = (isupper c \<or> islower c)"

text \<open>The class \<open>[a-zA-Z]\<close> of a regular expression.\<close>

definition isascii_letter :: "char \<Rightarrow> bool" where
  "isascii_letter c = ((65 \<le> code c \<and> code c \<le> 90) \<or> (97 \<le> code c \<and> code c \<le> 122))"

text \<open>
  The class \<open>\w\<close> of the \<open>re\<close> module on a \<open>str\<close>: the letters, the underscore, the
  digits 0 to 9, the superscript digits and the three fractions.
\<close>

definition isword :: "char \<Rightarrow> bool" where
  "isword c = (isalpha c \<or> (48 \<le> code c \<and> code c \<le> 57) \<or> code c = 95 \<or>
     code c = 178 \<or> code c = 179 \<or> code c = 185 \<or> (188 \<le> code c \<and> code c \<le> 190))"

text \<open>The lower case of a character: a capital letter has its small letter 32 places up.\<close>

definition tolower :: "char \<Rightarrow> char" where
  "tolower c = (if isupper c then char_of (code c + 32) else c)"

text \<open>
  The title case of a character, which is a string: the sharp s (U+00DF) has the two
  characters \<open>Ss\<close>, a small letter with a capital in the range has that capital, and
  the ordinal indicators are their own title case. Two small letters have a title case
  above U+00FF, which a \<^typ>\<open>char\<close> cannot hold: the y with diaeresis (U+00FF, title
  case U+0178) and the micro sign (U+00B5, title case U+039C). They are kept as they
  are, so that a title has the length of Python's and differs from it at these two
  characters only.
\<close>

definition totitle :: "char \<Rightarrow> string" where
  "totitle c =
    (if code c = 223 then ''Ss''
     else if islower c \<and> code c \<noteq> 170 \<and> code c \<noteq> 181 \<and> code c \<noteq> 186 \<and> code c \<noteq> 255
       then [char_of (code c - 32)]
     else [c])"

text \<open>\<open>s.lower()\<close>\<close>

definition py_lower :: "string \<Rightarrow> string" where
  "py_lower s = map tolower s"

text \<open>\<open>s.strip()\<close>: white space removed at both ends.\<close>

definition py_strip :: "string \<Rightarrow> string" where
  "py_strip s = rev (dropWhile isspace (rev (dropWhile isspace s)))"

text \<open>
  \<open>s.split()\<close>: the maximal runs of characters that are not white space, in order. The
  first argument of \<open>split_ws\<close> is the word read so far.
\<close>

fun split_ws :: "string \<Rightarrow> string \<Rightarrow> string list" where
  "split_ws w [] = (if w = [] then [] else [w])"
| "split_ws w (c # cs) =
     (if isspace c then (if w = [] then split_ws [] cs else w # split_ws [] cs)
      else split_ws (w @ [c]) cs)"

definition py_split :: "string \<Rightarrow> string list" where
  "py_split s = split_ws [] s"

text \<open>\<open>sep.join(ws)\<close>\<close>

fun py_join :: "string \<Rightarrow> string list \<Rightarrow> string" where
  "py_join sep [] = []"
| "py_join sep [w] = w"
| "py_join sep (w # v # ws) = w @ sep @ py_join sep (v # ws)"

text \<open>
  \<open>s.title()\<close>: the string is read from left to right; a character that follows a cased
  character gets its lower case, any other character gets its title case. The flag
  says whether the character before was cased.
\<close>

fun title_from :: "bool \<Rightarrow> string \<Rightarrow> string" where
  "title_from previous_is_cased [] = []"
| "title_from previous_is_cased (c # cs) =
     (if previous_is_cased then [tolower c] else totitle c) @ title_from (iscased c) cs"

definition py_title :: "string \<Rightarrow> string" where
  "py_title s = title_from False s"

text \<open>\<open>w in s\<close> for strings: \<open>w\<close> occurs in \<open>s\<close> as a contiguous piece.\<close>

fun py_in :: "string \<Rightarrow> string \<Rightarrow> bool" where
  "py_in w [] = (w = [])"
| "py_in w (c # cs) = (prefix w (c # cs) \<or> py_in w cs)"

text \<open>\<open>w.isalpha()\<close>: not empty, and every character a letter.\<close>

definition py_isalpha :: "string \<Rightarrow> bool" where
  "py_isalpha w = (w \<noteq> [] \<and> list_all isalpha w)"

section \<open>Errors and JSON values\<close>

text \<open>
  The exceptions the analyzer module can raise, each with its message. \<open>Exception\<close> is
  the plain \<open>Exception\<close> that \<open>LLMAnalyzer.analyze_text\<close> raises for any failure
  inside its \<open>try\<close> block.
\<close>

datatype error =
    ValueError string
  | TypeError string
  | AttributeError string
  | Exception string

fun str :: "error \<Rightarrow> string" where
  "str (ValueError m) = m"
| "str (TypeError m) = m"
| "str (AttributeError m) = m"
| "str (Exception m) = m"

text \<open>
  What \<open>json.loads\<close> can produce. An analyzer output is a Python \<open>dict\<close> with string
  keys; it is an association list read with \<open>map_of\<close>.
\<close>

datatype json =
    JNull
  | JBool bool
  | JNum real
  | JStr string
  | JArr "json list"
  | JObj "(string \<times> json) list"

type_synonym dict = "(string \<times> json) list"

text \<open>\<open>d.get(k, default)\<close>\<close>

definition dict_get :: "dict \<Rightarrow> string \<Rightarrow> json \<Rightarrow> json" where
  "dict_get d k dflt = (case map_of d k of None \<Rightarrow> dflt | Some v \<Rightarrow> v)"

text \<open>Python's truth value of an object.\<close>

fun truthy :: "json \<Rightarrow> bool" where
  "truthy JNull = False"
| "truthy (JBool b) = b"
| "truthy (JNum x) = (x \<noteq> 0)"
| "truthy (JStr s) = (s \<noteq> [])"
| "truthy (JArr xs) = (xs \<noteq> [])"
| "truthy (JObj kvs) = (kvs \<noteq> [])"

text \<open>\<open>len(v)\<close>: strings, lists and dicts have a length, the other values raise.\<close>

fun py_len :: "json \<Rightarrow> error + nat" where
  "py_len (JStr s) = Inr (length s)"
| "py_len (JArr xs) = Inr (length xs)"
| "py_len (JObj kvs) = Inr (length (remdups (map fst kvs)))"
| "py_len v = Inl (TypeError ''object has no len()'')"

text \<open>\<open>v.strip()\<close>: only a string has the method.\<close>

fun strip_of :: "json \<Rightarrow> error + string" where
  "strip_of (JStr s) = Inr (py_strip s)"
| "strip_of v = Inl (AttributeError ''object has no attribute strip'')"

section \<open>The collaborators outside the module\<close>

text \<open>
  The module reads the process-wide setting \<open>OPENAI_API_KEY\<close>, calls the chat service,
  \<open>json.loads\<close>, the NLTK tokenizer and tagger, the NLTK stop word list and
  \<open>random.choice\<close>. None of them is code of the repository, so each is a field of the
  environment:
  \<^item> \<open>api_key\<close>: the setting, \<open>None\<close> when it is not set;
  \<^item> \<open>chat_create\<close>: the request with the user text, giving the content of the first
    choice of the reply, or the exception of the call;
  \<^item> \<open>json_loads\<close>: \<open>json.loads\<close> on a string that starts with an opening brace, where
    a successful parse is a \<open>dict\<close>;
  \<^item> \<open>pos_tag_tokens\<close>: \<open>pos_tag(word_tokenize(s))\<close>, the tagged tokens or the exception;
  \<^item> \<open>stop_words\<close>: \<open>stopwords.words('english')\<close>, the corpus being installed;
  \<^item> \<open>random_choice\<close>: the index that \<open>random.choice\<close> draws, taken modulo the length
    of the list it chooses from.
  The world records the requests sent to the chat service, in order.
\<close>

record env =
  api_key :: "string option"
  chat_create :: "string \<Rightarrow> error + string"
  json_loads :: "string \<Rightarrow> error + dict"
  pos_tag_tokens :: "string \<Rightarrow> error + (string \<times> string) list"
  stop_words :: "string list"
  random_choice :: nat

record world =
  requests :: "string list"

section \<open>MockAnalyzer\<close>

definition sample_topics :: "string list list" where
  "sample_topics =
    [[''technology'', ''innovation'', ''digital''],
     [''health'', ''wellness'', ''medical''],
     [''business'', ''economy'', ''finance''],
     [''education'', ''learning'', ''knowledge''],
     [''environment'', ''sustainability'', ''climate''],
     [''science'', ''research'', ''discovery''],
     [''culture'', ''society'', ''community''],
     [''art'', ''creativity'', ''design''],
     [''travel'', ''adventure'', ''exploration''],
     [''food'', ''cooking'', ''nutrition'']]"

definition positive_keywords :: "string list" where
  "positive_keywords =
    [''excellent'', ''amazing'', ''great'', ''wonderful'', ''fantastic'', ''outstanding'',
     ''brilliant'', ''superb'', ''incredible'', ''remarkable'']"

definition negative_keywords :: "string list" where
  "negative_keywords =
    [''terrible'', ''awful'', ''horrible'', ''disappointing'', ''frustrating'', ''concerning'',
     ''problematic'', ''difficult'', ''challenging'', ''negative'']"

text \<open>Lines 59 to 62 of \<open>utils.py\<close>: the title.\<close>

definition mock_title :: "string \<Rightarrow> string" where
  "mock_title text =
    (let words = take 5 (py_split text);
         title = py_title (py_join '' '' words)
     in if length title > 50 then take 47 title @ ''...'' else title)"

text \<open>Lines 65 to 70: the summary, by the length of the text as given.\<close>

definition mock_summary :: "string \<Rightarrow> string" where
  "mock_summary text =
    (let title = mock_title text in
     if length text < 50 then
       ''This text discusses '' @ py_lower title @ '' and provides brief information on the topic.''
     else if length text < 200 then
       ''The content covers '' @ py_lower title @ '' and explores key aspects of the subject matter.''
     else
       ''This comprehensive text about '' @ py_lower title @
       '' provides detailed insights and analysis on the topic.'')"

text \<open>Lines 76 to 85: the sentiment. Each word of a list counts once when it occurs.\<close>

definition keyword_count :: "string list \<Rightarrow> string \<Rightarrow> nat" where
  "keyword_count ws text_lower = length (filter (\<lambda>word. py_in word text_lower) ws)"

definition mock_sentiment :: "string \<Rightarrow> string" where
  "mock_sentiment text =
    (let text_lower = py_lower text;
         positive_count = keyword_count positive_keywords text_lower;
         negative_count = keyword_count negative_keywords text_lower
     in if positive_count > negative_count then ''positive''
        else if negative_count > positive_count then ''negative''
        else ''neutral'')"

definition MockAnalyzer_analyze_text :: "nat \<Rightarrow> string \<Rightarrow> dict" where
  "MockAnalyzer_analyze_text rnd text =
    [(''summary'', JStr (mock_summary text)),
     (''title'', JStr (mock_title text)),
     (''topics'', JArr (map JStr (sample_topics ! (rnd mod length sample_topics)))),
     (''sentiment'', JStr (mock_sentiment text))]"

section \<open>LLMAnalyzer\<close>

text \<open>
  The constructor raises \<open>ValueError\<close> when the key is not set, is empty or is the
  placeholder. It reads the setting only.
\<close>

definition LLMAnalyzer_init :: "env \<Rightarrow> error + unit" where
  "LLMAnalyzer_init env =
    (case api_key env of
       None \<Rightarrow> Inl (ValueError
         ''OpenAI API key not configured. Please set OPENAI_API_KEY in your environment.'')
     | Some k \<Rightarrow>
         if k = [] \<or> k = ''your_openai_api_key_here'' then Inl (ValueError
           ''OpenAI API key not configured. Please set OPENAI_API_KEY in your environment.'')
         else Inr ())"

text \<open>
  \<open>re.search(r'\{.*\}', content, re.DOTALL)\<close>: the match starts at the first opening
  brace and, the star being greedy and the dot matching every character, ends at the
  last closing brace after it; there is no match when no closing brace follows the
  first opening brace.
\<close>

definition re_search_braces :: "string \<Rightarrow> string option" where
  "re_search_braces content =
    (let t = dropWhile (\<lambda>c. c \<noteq> CHR ''{'') content in
     if t = [] then None
     else if CHR ''}'' \<in> set (tl t)
       then Some (rev (dropWhile (\<lambda>c. c \<noteq> CHR ''}'') (rev t)))
       else None)"

text \<open>
  \<open>analyze_text\<close> sends one request. Every exception inside the \<open>try\<close> block, of the
  call or of \<open>json.loads\<close>, is raised again as a plain \<open>Exception\<close>.
\<close>

definition LLMAnalyzer_analyze_text :: "env \<Rightarrow> world \<Rightarrow> string \<Rightarrow> world \<times> (error + dict)" where
  "LLMAnalyzer_analyze_text env w text =
    (let w' = w\<lparr>requests := requests w @ [text]\<rparr> in
     case chat_create env text of
       Inl e \<Rightarrow> (w', Inl (Exception (''OpenAI API error: '' @ str e)))
     | Inr reply \<Rightarrow>
         let content = py_strip reply in
         (case re_search_braces content of
            Some json_match \<Rightarrow>
              (case json_loads env json_match of
                 Inl e \<Rightarrow> (w', Inl (Exception (''OpenAI API error: '' @ str e)))
               | Inr result \<Rightarrow> (w', Inr result))
          | None \<Rightarrow>
              (w', Inr [(''summary'', JStr content),
                        (''title'', JNull),
                        (''topics'', JArr [JStr ''general'']),
                        (''sentiment'', JStr ''neutral'')])))"

section \<open>KeywordExtractor\<close>

text \<open>
  \<open>Counter(words)\<close>: a dict from each word to the number of times it was seen, its keys
  in the order they were first seen.
\<close>

fun counter_add :: "('a \<times> nat) list \<Rightarrow> 'a \<Rightarrow> ('a \<times> nat) list" where
  "counter_add [] x = [(x, 1)]"
| "counter_add ((y, n) # kvs) x =
     (if x = y then (y, Suc n) # kvs else (y, n) # counter_add kvs x)"

definition Counter :: "'a list \<Rightarrow> ('a \<times> nat) list" where
  "Counter xs = foldl counter_add [] xs"

text \<open>
  \<open>most_common(n)\<close> is \<open>heapq.nlargest(n, items, key=count)\<close>, that is
  \<open>sorted(items, key=count, reverse=True)[:n]\<close>: a stable sort by descending count, of
  which the first \<open>n\<close> are kept (none when \<open>n\<close> is not positive).
\<close>

definition most_common :: "int \<Rightarrow> ('a \<times> nat) list \<Rightarrow> ('a \<times> nat) list" where
  "most_common n items = take (nat n) (sort_key (\<lambda>(word, count). - int count) items)"

text \<open>The noun filter of lines 171 to 177.\<close>

definition nouns :: "env \<Rightarrow> (string \<times> string) list \<Rightarrow> string list" where
  "nouns env tagged_tokens =
    map fst (filter (\<lambda>(word, pos).
        prefix ''NN'' pos \<and> py_isalpha word \<and> length word > 2 \<and> word \<notin> set (stop_words env))
      tagged_tokens)"

text \<open>
  The \<open>try\<close> block, lines 167 to 183: it raises what tokenizer and tagger raise, and
  otherwise returns the most common nouns.
\<close>

definition tagged_keywords :: "env \<Rightarrow> string \<Rightarrow> int \<Rightarrow> error + string list" where
  "tagged_keywords env text num_keywords =
    (case pos_tag_tokens env (py_lower text) of
       Inl e \<Rightarrow> Inl e
     | Inr tagged_tokens \<Rightarrow>
         (let noun_counts = Counter (nouns env tagged_tokens);
              top_nouns = map fst (most_common num_keywords noun_counts)
          in Inr top_nouns))"

text \<open>
  \<open>re.findall(r'\b[a-zA-Z]{3,}\b', s)\<close>: a match starts and ends at a word boundary, and
  between two letters there is none, so a match is a whole maximal run of word
  characters; the run matches when it has only the letters of \<open>[a-zA-Z]\<close> and at
  least three of them. \<open>word_runs\<close> lists the maximal runs of word characters.
\<close>

fun word_runs :: "string \<Rightarrow> string \<Rightarrow> string list" where
  "word_runs w [] = (if w = [] then [] else [w])"
| "word_runs w (c # cs) =
     (if isword c then word_runs (w @ [c]) cs
      else if w = [] then word_runs [] cs else w # word_runs [] cs)"

definition re_findall_words :: "string \<Rightarrow> string list" where
  "re_findall_words s =
     filter (\<lambda>w. list_all isascii_letter w \<and> 3 \<le> length w) (word_runs [] s)"

text \<open>The \<open>except\<close> block, lines 187 to 190. Nothing in it raises.\<close>

definition regex_keywords :: "env \<Rightarrow> string \<Rightarrow> int \<Rightarrow> string list" where
  "regex_keywords env text num_keywords =
    (let words = re_findall_words (py_lower text);
         words = filter (\<lambda>word. word \<notin> set (stop_words env)) words;
         word_counts = Counter words
     in map fst (most_common num_keywords word_counts))"

text \<open>
  \<open>extract_keywords\<close>: the value of the \<open>try\<close> block, and the value of the \<open>except\<close>
  block when the \<open>try\<close> block raises.
\<close>

definition extract_keywords :: "env \<Rightarrow> string \<Rightarrow> int \<Rightarrow> string list" where
  "extract_keywords env text num_keywords =
    (case tagged_keywords env text num_keywords of
       Inr top_nouns \<Rightarrow> top_nouns
     | Inl e \<Rightarrow> regex_keywords env text num_keywords)"

section \<open>The confidence score\<close>

text \<open>
  The score is a real number: the sums and the product of the source are taken exactly,
  where Python rounds each to a double.
\<close>

definition calculate_confidence_score :: "string \<Rightarrow> dict \<Rightarrow> string list \<Rightarrow> error + real" where
  "calculate_confidence_score text llm_result keywords =
    (let score = 0;
         score = (if text \<noteq> [] \<and> length (py_strip text) > 10 then score + 0.2 else score);
         text_length = length (py_strip text);
         score = (if text_length > 100 then score + 0.1 else score);
         score = (if text_length > 500 then score + 0.1 else score);
         summary = dict_get llm_result ''summary'' (JStr []);
         good_summary =
           (if truthy summary
            then (case strip_of summary of Inl e \<Rightarrow> Inl e | Inr s \<Rightarrow> Inr (length s > 20))
            else Inr False)
     in (case good_summary of
           Inl e \<Rightarrow> Inl e
         | Inr good \<Rightarrow>
            (let score = (if good then score + 0.2 else score);
                 score = (if truthy (dict_get llm_result ''title'' JNull)
                          then score + 0.1 else score);
                 topics = dict_get llm_result ''topics'' (JArr [])
             in (case py_len topics of
                   Inl e \<Rightarrow> Inl e
                 | Inr n \<Rightarrow>
                    (let score = (if n \<ge> 3 then score + 0.1
                                  else if n \<ge> 2 then score + 0.05 else score);
                         score = (if length keywords \<ge> 3 then score + 0.1
                                  else if length keywords \<ge> 2 then score + 0.05 else score);
                         sentiment = dict_get llm_result ''sentiment'' (JStr ''neutral'');
                         score = (if sentiment \<noteq> JStr ''neutral'' then score + 0.1 else score)
                     in Inr (min (max score 0) 1))))))"

section \<open>analyze_text_complete\<close>

record result =
  summary :: json
  title :: json
  topics :: json
  sentiment :: json
  keywords' :: "string list"
  confidence_score :: real
  analysis_method :: string

text \<open>The \<open>try\<close> block of lines 253 to 256: construct the analyzer, then call it.\<close>

definition try_primary :: "env \<Rightarrow> world \<Rightarrow> string \<Rightarrow> world \<times> (error + dict)" where
  "try_primary env w text =
    (case LLMAnalyzer_init env of
       Inl e \<Rightarrow> (w, Inl e)
     | Inr _ \<Rightarrow> LLMAnalyzer_analyze_text env w text)"

definition analyze_text_complete :: "env \<Rightarrow> world \<Rightarrow> string \<Rightarrow> world \<times> (error + result)" where
  "analyze_text_complete env w text =
    (if text = [] \<or> py_strip text = [] then (w, Inl (ValueError ''Empty input text''))
     else
       let (w', attempt) = try_primary env w text;
           (llm_result, method) =
             (case attempt of
                Inr d \<Rightarrow> (d, ''openai'')
              | Inl e \<Rightarrow> (MockAnalyzer_analyze_text (random_choice env) text, ''mock''));
           kws = extract_keywords env text 3
       in (case calculate_confidence_score text llm_result kws of
             Inl e \<Rightarrow> (w', Inl e)
           | Inr score \<Rightarrow>
              (let score = (if method = ''mock'' then min (score * 0.7) 0.8 else score)
               in (w', Inr \<lparr>summary = dict_get llm_result ''summary'' (JStr []),
                            title = dict_get llm_result ''title'' JNull,
                            topics = dict_get llm_result ''topics'' (JArr []),
                            sentiment = dict_get llm_result ''sentiment'' (JStr ''neutral''),
                            keywords' = kws,
                            confidence_score = score,
                            analysis_method = method\<rparr>))))"

section \<open>Definitions for the statements\<close>

text \<open>
  The summary test of lines 211 and 212, and the contributions of the score: \<open>good\<close>
  is the outcome of the summary test, \<open>t\<close> the title, \<open>n\<close> the length of the topics,
  \<open>k\<close> the number of keywords, \<open>sent\<close> the sentiment.
\<close>

definition good_summary :: "dict \<Rightarrow> error + bool" where
  "good_summary d =
    (let s = dict_get d ''summary'' (JStr []) in
     if truthy s
     then (case strip_of s of Inl e \<Rightarrow> Inl e | Inr s' \<Rightarrow> Inr (length s' > 20))
     else Inr False)"

definition points :: "string \<Rightarrow> bool \<Rightarrow> json \<Rightarrow> nat \<Rightarrow> nat \<Rightarrow> json \<Rightarrow> real" where
  "points text good t n k sent =
     (if 10 < length (py_strip text) then 0.2 else 0) +
     (if 100 < length (py_strip text) then 0.1 else 0) +
     (if 500 < length (py_strip text) then 0.1 else 0) +
     (if good then 0.2 else 0) +
     (if truthy t then 0.1 else 0) +
     (if 3 \<le> n then 0.1 else if 2 \<le> n then 0.05 else 0) +
     (if 3 \<le> k then 0.1 else if 2 \<le> k then 0.05 else 0) +
     (if sent \<noteq> JStr ''neutral'' then 0.1 else 0)"

text \<open>
  An analyzer output is well typed for the scorer when its summary is a string or has
  the truth value false, and its topics have a length. The scorer returns on exactly
  these outputs.
\<close>

fun is_str :: "json \<Rightarrow> bool" where
  "is_str (JStr s) = True"
| "is_str v = False"

fun sized :: "json \<Rightarrow> bool" where
  "sized (JStr s) = True"
| "sized (JArr xs) = True"
| "sized (JObj kvs) = True"
| "sized v = False"

definition well_typed :: "dict \<Rightarrow> bool" where
  "well_typed d =
    ((is_str (dict_get d ''summary'' (JStr [])) \<or> \<not> truthy (dict_get d ''summary'' (JStr []))) \<and>
     sized (dict_get d ''topics'' (JArr [])))"

text \<open>The count of a word in a counter, 0 when it is not a key.\<close>

definition cnt :: "('a \<times> nat) list \<Rightarrow> 'a \<Rightarrow> nat" where
  "cnt kvs w = (case map_of kvs w of None \<Rightarrow> 0 | Some n \<Rightarrow> n)"

text \<open>
  The score as C1 words it, for an output whose summary is a string and whose topics
  are a list: as \<open>points\<close>, but for the title, which counts when it is not \<open>null\<close>.
\<close>

definition claimed_points :: "string \<Rightarrow> bool \<Rightarrow> json \<Rightarrow> nat \<Rightarrow> nat \<Rightarrow> json \<Rightarrow> real" where
  "claimed_points text good t n k sent =
     (if 10 < length (py_strip text) then 0.2 else 0) +
     (if 100 < length (py_strip text) then 0.1 else 0) +
     (if 500 < length (py_strip text) then 0.1 else 0) +
     (if good then 0.2 else 0) +
     (if t \<noteq> JNull then 0.1 else 0) +
     (if 3 \<le> n then 0.1 else if n = 2 then 0.05 else 0) +
     (if 3 \<le> k then 0.1 else if k = 2 then 0.05 else 0) +
     (if sent \<noteq> JStr ''neutral'' then 0.1 else 0)"

definition claimed_score :: "string \<Rightarrow> string \<Rightarrow> json \<Rightarrow> json list \<Rightarrow> json \<Rightarrow> string list \<Rightarrow> real" where
  "claimed_score text s t ts sent kws =
     min (max (claimed_points text (20 < length (py_strip s)) t (length ts) (length kws) sent) 0) 1"

text \<open>
  The sentiment, in words that do not use \<open>lower\<close>. Two characters are the same
  letter when they are equal or one is a capital letter and the other is its small
  letter. A word occurs in a text, letter case apart, when a contiguous piece of the
  text has the length of the word and, place by place, the same letters. The sentiment
  compares how many words of the positive list occur with how many words of the
  negative list occur: \<open>card\<close> counts a word once, however often it occurs.
\<close>

definition same_letter :: "char \<Rightarrow> char \<Rightarrow> bool" where
  "same_letter a b =
     (a = b \<or> (isupper a \<and> code b = code a + 32) \<or> (isupper b \<and> code a = code b + 32))"

definition ci_occurs :: "string \<Rightarrow> string \<Rightarrow> bool" where
  "ci_occurs word text = (\<exists>ps u ss. text = ps @ u @ ss \<and> list_all2 same_letter u word)"

definition spec_sentiment :: "string \<Rightarrow> string" where
  "spec_sentiment text =
    (let positive_count = card {word \<in> set positive_keywords. ci_occurs word text};
         negative_count = card {word \<in> set negative_keywords. ci_occurs word text}
     in if positive_count > negative_count then ''positive''
        else if negative_count > positive_count then ''negative''
        else ''neutral'')"

text \<open>
  The sentiment as C8 words it: the occurrences are counted, so a word that occurs
  three times counts three times. \<open>occurrences w s\<close> is the number of places of \<open>s\<close>
  at which \<open>w\<close> starts.
\<close>

fun occurrences :: "string \<Rightarrow> string \<Rightarrow> nat" where
  "occurrences w [] = 0"
| "occurrences w (c # cs) = (if prefix w (c # cs) then 1 else 0) + occurrences w cs"

definition claimed_sentiment :: "string \<Rightarrow> string" where
  "claimed_sentiment text =
    (let positive_count = sum_list (map (\<lambda>word. occurrences word (py_lower text)) positive_keywords);
         negative_count = sum_list (map (\<lambda>word. occurrences word (py_lower text)) negative_keywords)
     in if positive_count > negative_count then ''positive''
        else if negative_count > positive_count then ''negative''
        else ''neutral'')"

text \<open>
  The title, in words that do not use \<open>split\<close>, \<open>join\<close> and \<open>title\<close>. The words of
  a text: after the white space at its start, the longest piece without white space is
  the first word, and the other words are the words of the rest.
\<close>

function words_of :: "string \<Rightarrow> string list" where
  "words_of s =
    (let t = dropWhile isspace s in
     if t = [] then []
     else takeWhile (\<lambda>c. \<not> isspace c) t # words_of (dropWhile (\<lambda>c. \<not> isspace c) t))"
  by pat_completeness auto

termination
proof (relation "measure length")
  show "wf (measure length)" by simp
next
  fix s t :: string
  assume t: "t = dropWhile isspace s" and ne: "t \<noteq> []"
  then have "\<not> isspace (hd t)"
    using hd_dropWhile [of isspace s] by simp
  with ne have "length (dropWhile (\<lambda>c. \<not> isspace c) t) < length t"
    by (cases t) (simp_all add: le_imp_less_Suc length_dropWhile_le)
  also have "length t \<le> length s"
    unfolding t by (rule length_dropWhile_le)
  finally show "(dropWhile (\<lambda>c. \<not> isspace c) t, s) \<in> measure length"
    by simp
qed

declare words_of.simps [simp del]

text \<open>Words joined: the first word, then every other word after one space.\<close>

definition joined :: "string list \<Rightarrow> string" where
  "joined ws = (case ws of [] \<Rightarrow> [] | w # vs \<Rightarrow> w @ concat (map (\<lambda>v. '' '' @ v) vs))"

text \<open>
  A string title-cased as \<open>str.title\<close> does it: every character is looked at together
  with the character before it (a space before the first); it gets its lower case when
  the character before it is a letter, and its title case otherwise. So a letter is a
  capital exactly when no letter stands before it, be it after a space, a digit or an
  apostrophe.
\<close>

definition title_cased :: "string \<Rightarrow> string" where
  "title_cased s =
     concat (map2 (\<lambda>before c. if iscased before then [tolower c] else totitle c)
       (CHR '' '' # s) s)"

text \<open>
  The title as C9 words it, the words being title-cased: each of the first five words
  has the title case of its first character and the lower case of its other
  characters.
\<close>

definition capitalized :: "string \<Rightarrow> string" where
  "capitalized w = (case w of [] \<Rightarrow> [] | c # cs \<Rightarrow> totitle c @ map tolower cs)"

definition claimed_title :: "string \<Rightarrow> string" where
  "claimed_title text =
    (let t = joined (map capitalized (take 5 (words_of text)))
     in if 50 < length t then take 47 t @ ''...'' else t)"

text \<open>
  The words that the extractor counts: the nouns when tokenizer and tagger work, the
  words of the regular expression without the stop words when they raise.
\<close>

definition candidates :: "env \<Rightarrow> string \<Rightarrow> string list" where
  "candidates env text =
    (case pos_tag_tokens env (py_lower text) of
       Inr tagged_tokens \<Rightarrow> nouns env tagged_tokens
     | Inl e \<Rightarrow> filter (\<lambda>word. word \<notin> set (stop_words env)) (re_findall_words (py_lower text)))"

text \<open>
  The frequency of a token in the input, as C6 words it: the number of times it is a
  token of the lower-cased text, whatever its tag, when tokenizer and tagger work; the
  number of times the regular expression finds it when they raise.
\<close>

definition token_frequency :: "env \<Rightarrow> string \<Rightarrow> string \<Rightarrow> nat" where
  "token_frequency env text k =
    (case pos_tag_tokens env (py_lower text) of
       Inr tagged_tokens \<Rightarrow> count_list (map fst tagged_tokens) k
     | Inl e \<Rightarrow> count_list (re_findall_words (py_lower text)) k)"

section \<open>Environments for concrete runs\<close>

text \<open>
  Four environments in which tokenizer and tagger raise, so that keywords come from the
  regular expression. In \<open>env_unconfigured\<close> the key is not set. In \<open>env_primary\<close>
  the key is set and the service replies with the JSON object the prompt asks for. In
  \<open>env_null_topics\<close> the service replies with an object whose \<open>topics\<close> is \<open>null\<close>.
  In \<open>env_braces\<close> the service replies with a sentence that has braces in it, which
  \<open>json.loads\<close> rejects. \<open>json_loads\<close> is given on the replies of the environment
  only. \<open>w0\<close> is the world before any request.
\<close>

definition env_unconfigured :: env where
  "env_unconfigured =
    \<lparr>api_key = None,
     chat_create = (\<lambda>t. Inl (Exception ''Connection error.'')),
     json_loads = (\<lambda>s. Inl (ValueError ''Expecting value'')),
     pos_tag_tokens = (\<lambda>s. Inl (Exception ''Resource punkt not found.'')),
     stop_words = [''the'', ''and'', ''in'', ''on''],
     random_choice = 1\<rparr>"

definition reply_object :: string where
  \<open>reply_object = ''{"summary": "Cats sit on mats all day long.", "title": "Cats", "topics": ["cats", "mats", "pets"], "sentiment": "positive"}''\<close>

definition env_primary :: env where
  "env_primary =
    \<lparr>api_key = Some ''sk-test'',
     chat_create = (\<lambda>t. Inr reply_object),
     json_loads = (\<lambda>s.
       if s = reply_object
       then Inr [(''summary'', JStr ''Cats sit on mats all day long.''),
                 (''title'', JStr ''Cats''),
                 (''topics'', JArr [JStr ''cats'', JStr ''mats'', JStr ''pets'']),
                 (''sentiment'', JStr ''positive'')]
       else Inl (ValueError ''Expecting value'')),
     pos_tag_tokens = (\<lambda>s. Inl (Exception ''Resource punkt not found.'')),
     stop_words = [''the'', ''and'', ''in'', ''on''],
     random_choice = 1\<rparr>"

definition reply_null_topics :: string where
  \<open>reply_null_topics = ''{"summary": "Cats sit on mats all day long.", "topics": null}''\<close>

definition env_null_topics :: env where
  "env_null_topics =
    \<lparr>api_key = Some ''sk-test'',
     chat_create = (\<lambda>t. Inr reply_null_topics),
     json_loads = (\<lambda>s.
       if s = reply_null_topics
       then Inr [(''summary'', JStr ''Cats sit on mats all day long.''), (''topics'', JNull)]
       else Inl (ValueError ''Expecting value'')),
     pos_tag_tokens = (\<lambda>s. Inl (Exception ''Resource punkt not found.'')),
     stop_words = [''the'', ''and'', ''in'', ''on''],
     random_choice = 1\<rparr>"

definition w0 :: world where
  "w0 = \<lparr>requests = []\<rparr>"

definition env_braces :: env where
  "env_braces =
    \<lparr>api_key = Some ''sk-test'',
     chat_create = (\<lambda>t. Inr ''The text is about {cats} and mats.''),
     json_loads = (\<lambda>s. Inl (ValueError
       ''Expecting property name enclosed in double quotes: line 1 column 2 (char 1)'')),
     pos_tag_tokens = (\<lambda>s. Inl (Exception ''Resource punkt not found.'')),
     stop_words = [''the'', ''and'', ''in'', ''on''],
     random_choice = 1\<rparr>"

text \<open>
  Two environments for one sentence: in the first the tagger gives its tagging of the
  lower-cased sentence, in the second tokenizer and tagger raise.
\<close>

definition sentence :: string where
  "sentence = ''Dogs chase the cat and the cat bites dogs in a garden of dogs.''"

definition env_tagged :: env where
  "env_tagged =
    \<lparr>api_key = None,
     chat_create = (\<lambda>t. Inl (Exception ''Connection error.'')),
     json_loads = (\<lambda>s. Inl (ValueError ''Expecting value'')),
     pos_tag_tokens = (\<lambda>s.
       if s = ''dogs chase the cat and the cat bites dogs in a garden of dogs.''
       then Inr
        [(''dogs'', ''NNS''), (''chase'', ''VBP''), (''the'', ''DT''), (''cat'', ''NN''),
         (''and'', ''CC''), (''the'', ''DT''), (''cat'', ''NN''), (''bites'', ''VBZ''),
         (''dogs'', ''NNS''), (''in'', ''IN''), (''a'', ''DT''), (''garden'', ''NN''),
         (''of'', ''IN''), (''dogs'', ''NNS''), (''.'', ''.'')]
       else Inl (Exception ''Resource punkt not found.'')),
     stop_words = [''the'', ''and'', ''in'', ''on'', ''a'', ''of''],
     random_choice = 1\<rparr>"

definition env_untagged :: env where
  "env_untagged =
     env_tagged\<lparr>pos_tag_tokens := (\<lambda>s. Inl (Exception ''Resource punkt not found.''))\<rparr>"

text \<open>
  An environment for a text in which the word \<open>run\<close> is a token four times, three
  times tagged as a verb and once as a noun, and the word \<open>cat\<close> is a token twice,
  both times tagged as a noun.
\<close>

definition run_text :: string where
  "run_text = ''We run and they run and you run for a run with the cat and the other cat''"

definition env_run :: env where
  "env_run =
    \<lparr>api_key = None,
     chat_create = (\<lambda>t. Inl (Exception ''Connection error.'')),
     json_loads = (\<lambda>s. Inl (ValueError ''Expecting value'')),
     pos_tag_tokens = (\<lambda>s.
       if s = ''we run and they run and you run for a run with the cat and the other cat''
       then Inr
        [(''we'', ''PRP''), (''run'', ''VBP''), (''and'', ''CC''), (''they'', ''PRP''),
         (''run'', ''VBP''), (''and'', ''CC''), (''you'', ''PRP''), (''run'', ''VBP''),
         (''for'', ''IN''), (''a'', ''DT''), (''run'', ''NN''), (''with'', ''IN''),
         (''the'', ''DT''), (''cat'', ''NN''), (''and'', ''CC''), (''the'', ''DT''),
         (''other'', ''JJ''), (''cat'', ''NN'')]
       else Inl (Exception ''Resource punkt not found.'')),
     stop_words = [''we'', ''and'', ''they'', ''you'', ''for'', ''a'', ''with'', ''the'', ''other''],
     random_choice = 1\<rparr>"

text \<open>A text of 600 characters.\<close>

definition scenario_text :: string where
  "scenario_text = replicate 600 (CHR ''x'')"

section \<open>The score as a sum\<close>

lemma if_add1: "(if c then s + a else s) = s + (if c then a else (0::real))"
  by simp

lemma if_add2:
  "(if c then s + a else if c' then s + b else s) =
   s + (if c then a else if c' then b else (0::real))"
  by simp

lemma strip_Nil [simp]: "py_strip [] = []"
  by (simp add: py_strip_def)

lemma score_sum:
  "calculate_confidence_score text d kws =
    (case good_summary d of
       Inl e \<Rightarrow> Inl e
     | Inr good \<Rightarrow>
        (case py_len (dict_get d ''topics'' (JArr [])) of
           Inl e \<Rightarrow> Inl e
         | Inr n \<Rightarrow> Inr (min (max (points text good (dict_get d ''title'' JNull) n (length kws)
                (dict_get d ''sentiment'' (JStr ''neutral''))) 0) 1)))"
proof -
  have a: "(text \<noteq> [] \<and> 10 < length (py_strip text)) = (10 < length (py_strip text))"
    by (cases "text") auto
  show ?thesis
    unfolding calculate_confidence_score_def good_summary_def points_def a
    by (simp add: if_add1 if_add2 Let_def split: sum.splits split del: if_split)
qed

lemma score_bounds:
  assumes "calculate_confidence_score text d kws = Inr s"
  shows "0 \<le> s \<and> s \<le> 1"
proof -
  from assms obtain x where "s = min (max x 0) 1"
    by (auto simp add: score_sum split: sum.splits)
  then show ?thesis by simp
qed

lemma mock_get [simp]:
  "dict_get (MockAnalyzer_analyze_text rnd text) ''summary'' dflt = JStr (mock_summary text)"
  "dict_get (MockAnalyzer_analyze_text rnd text) ''title'' dflt = JStr (mock_title text)"
  "dict_get (MockAnalyzer_analyze_text rnd text) ''topics'' dflt =
     JArr (map JStr (sample_topics ! (rnd mod length sample_topics)))"
  "dict_get (MockAnalyzer_analyze_text rnd text) ''sentiment'' dflt = JStr (mock_sentiment text)"
  by (simp_all add: dict_get_def MockAnalyzer_analyze_text_def)

text \<open>The scorer does not raise on the output of the mock analyzer.\<close>

lemma mock_scores:
  "\<exists>s. calculate_confidence_score text (MockAnalyzer_analyze_text rnd text) kws = Inr s"
  by (simp add: score_sum good_summary_def)

section \<open>The three ways through analyze_text_complete\<close>

lemma atc_empty:
  "py_strip text = [] \<Longrightarrow>
   analyze_text_complete env w text = (w, Inl (ValueError ''Empty input text''))"
  by (simp add: analyze_text_complete_def)

lemma atc_mock:
  assumes "py_strip text \<noteq> []" and "try_primary env w text = (w', Inl e)"
    and "calculate_confidence_score text (MockAnalyzer_analyze_text (random_choice env) text)
           (extract_keywords env text 3) = Inr s"
  shows "analyze_text_complete env w text =
    (w', Inr \<lparr>summary = JStr (mock_summary text), title = JStr (mock_title text),
       topics = JArr (map JStr (sample_topics ! (random_choice env mod length sample_topics))),
       sentiment = JStr (mock_sentiment text), keywords' = extract_keywords env text 3,
       confidence_score = min (s * 0.7) 0.8, analysis_method = ''mock''\<rparr>)"
  using assms by (auto simp add: analyze_text_complete_def Let_def)

lemma atc_openai:
  assumes "py_strip text \<noteq> []" and "try_primary env w text = (w', Inr d)"
  shows "analyze_text_complete env w text =
    (w', case calculate_confidence_score text d (extract_keywords env text 3) of
           Inl e \<Rightarrow> Inl e
         | Inr s \<Rightarrow> Inr \<lparr>summary = dict_get d ''summary'' (JStr []),
               title = dict_get d ''title'' JNull,
               topics = dict_get d ''topics'' (JArr []),
               sentiment = dict_get d ''sentiment'' (JStr ''neutral''),
               keywords' = extract_keywords env text 3,
               confidence_score = s, analysis_method = ''openai''\<rparr>)"
  using assms by (auto simp add: analyze_text_complete_def Let_def split: sum.splits)

text \<open>
  A returned result was produced on one of the two paths: on the primary path the
  score is the scorer's, on the fallback path it is the discounted score.
\<close>

lemma atc_result_cases:
  assumes "snd (analyze_text_complete env w text) = Inr r"
  obtains (primary) d where "snd (try_primary env w text) = Inr d"
      and "calculate_confidence_score text d (extract_keywords env text 3) = Inr (confidence_score r)"
      and "analysis_method r = ''openai''"
    | (fallback) e s where "snd (try_primary env w text) = Inl e"
      and "calculate_confidence_score text (MockAnalyzer_analyze_text (random_choice env) text)
             (extract_keywords env text 3) = Inr s"
      and "confidence_score r = min (s * 0.7) 0.8"
      and "analysis_method r = ''mock''"
proof -
  have ne: "py_strip text \<noteq> []"
    using assms atc_empty [of "text" env w] by auto
  obtain w' attempt where tp: "try_primary env w text = (w', attempt)"
    by (cases "try_primary env w text")
  show thesis
  proof (cases attempt)
    case (Inl e)
    obtain s where s: "calculate_confidence_score text
        (MockAnalyzer_analyze_text (random_choice env) text) (extract_keywords env text 3) = Inr s"
      using mock_scores by blast
    from atc_mock [OF ne tp [unfolded Inl] s] assms
    have "confidence_score r = min (s * 0.7) 0.8" and "analysis_method r = ''mock''"
      by auto
    with fallback [of e s] tp Inl s show thesis by simp
  next
    case (Inr d)
    from atc_openai [OF ne tp [unfolded Inr]] assms
    have "calculate_confidence_score text d (extract_keywords env text 3) = Inr (confidence_score r)"
      and "analysis_method r = ''openai''"
      by (auto split: sum.splits)
    with primary [of d] tp Inr show thesis by simp
  qed
qed

lemma unconfigured_init:
  assumes "api_key env = None \<or> api_key env = Some [] \<or>
           api_key env = Some ''your_openai_api_key_here''"
  shows "LLMAnalyzer_init env = Inl (ValueError
    ''OpenAI API key not configured. Please set OPENAI_API_KEY in your environment.'')"
  using assms by (auto simp add: LLMAnalyzer_init_def)

section \<open>Claims about the orchestration\<close>

text \<open>
  C2. Every result that \<open>analyze_text_complete\<close> returns has a confidence score in the
  closed interval from 0 to 1, whether it was produced on the primary path
  (\<open>analysis_method = "openai"\<close>) or on the fallback path (\<open>analysis_method = "mock"\<close>).
  An input that is empty after trimming returns no result (\<open>atc_empty\<close>).
\<close>

theorem confidence_score_in_unit_interval:
  assumes "snd (analyze_text_complete env w text) = Inr r"
  shows "0 \<le> confidence_score r \<and> confidence_score r \<le> 1 \<and>
         (analysis_method r = ''openai'' \<or> analysis_method r = ''mock'')"
  using assms
proof (cases rule: atc_result_cases)
  case (primary d)
  with score_bounds show ?thesis by blast
next
  case (fallback e s)
  from score_bounds [OF fallback(2)] have "0 \<le> s" and "s \<le> 1" by simp_all
  with fallback(3,4) show ?thesis by simp
qed

theorem confidence_score_in_unit_interval_witness:
  "snd (analyze_text_complete env_primary w0 ''the cat sat on the mat and the cat slept'') =
     Inr \<lparr>summary = JStr ''Cats sit on mats all day long.'', title = JStr ''Cats'',
          topics = JArr [JStr ''cats'', JStr ''mats'', JStr ''pets''],
          sentiment = JStr ''positive'', keywords' = [''cat'', ''sat'', ''mat''],
          confidence_score = 4 / 5, analysis_method = ''openai''\<rparr> \<and>
   (0::real) \<le> 4 / 5 \<and> (4::real) / 5 \<le> 1 \<and>
   (\<exists>r. snd (analyze_text_complete env_unconfigured w0 ''excellent breakthrough in medicine'') = Inr r \<and>
        analysis_method r = ''mock'' \<and> confidence_score r = 14 / 25 \<and>
        0 \<le> confidence_score r \<and> confidence_score r \<le> 1)"
proof -
  have h: "snd (analyze_text_complete env_primary w0 ''the cat sat on the mat and the cat slept'') =
     Inr \<lparr>summary = JStr ''Cats sit on mats all day long.'', title = JStr ''Cats'',
          topics = JArr [JStr ''cats'', JStr ''mats'', JStr ''pets''],
          sentiment = JStr ''positive'', keywords' = [''cat'', ''sat'', ''mat''],
          confidence_score = 4 / 5, analysis_method = ''openai''\<rparr>"
    by code_simp
  define r where "r = \<lparr>summary = JStr
            ''This text discusses excellent breakthrough in medicine and provides brief information on the topic.'',
          title = JStr ''Excellent Breakthrough In Medicine'',
          topics = JArr [JStr ''health'', JStr ''wellness'', JStr ''medical''],
          sentiment = JStr ''positive'',
          keywords' = [''excellent'', ''breakthrough'', ''medicine''],
          confidence_score = 14 / 25, analysis_method = ''mock''\<rparr>"
  have m: "snd (analyze_text_complete env_unconfigured w0 ''excellent breakthrough in medicine'') = Inr r"
    unfolding r_def by code_simp
  have f: "analysis_method r = ''mock''" "confidence_score r = 14 / 25"
    by (simp_all add: r_def)
  from confidence_score_in_unit_interval [OF m] m f
  have "\<exists>r. snd (analyze_text_complete env_unconfigured w0 ''excellent breakthrough in medicine'') = Inr r \<and>
        analysis_method r = ''mock'' \<and> confidence_score r = 14 / 25 \<and>
        0 \<le> confidence_score r \<and> confidence_score r \<le> 1"
    by blast
  with confidence_score_in_unit_interval [OF h] h show ?thesis by simp
qed

text \<open>
  C3. A result whose \<open>analysis_method\<close> is the fallback's has a confidence score of at
  most 0.8, and the score is the scorer's score for the text, the fallback analyzer's
  output and the keywords, multiplied by 0.7 and then capped at 0.8.
\<close>

theorem fallback_score_discounted:
  assumes "snd (analyze_text_complete env w text) = Inr r"
    and "analysis_method r = ''mock''"
  shows "confidence_score r \<le> 0.8 \<and>
    (\<exists>base. calculate_confidence_score text
        (MockAnalyzer_analyze_text (random_choice env) text) (extract_keywords env text 3) = Inr base \<and>
      confidence_score r = min (base * 0.7) 0.8)"
  using assms(1)
proof (cases rule: atc_result_cases)
  case (primary d)
  with assms(2) show ?thesis by simp
next
  case (fallback e s)
  then show ?thesis by simp
qed

theorem fallback_score_discounted_witness:
  "snd (analyze_text_complete env_unconfigured w0 ''excellent breakthrough in medicine'') =
     Inr \<lparr>summary = JStr
            ''This text discusses excellent breakthrough in medicine and provides brief information on the topic.'',
          title = JStr ''Excellent Breakthrough In Medicine'',
          topics = JArr [JStr ''health'', JStr ''wellness'', JStr ''medical''],
          sentiment = JStr ''positive'',
          keywords' = [''excellent'', ''breakthrough'', ''medicine''],
          confidence_score = 14 / 25, analysis_method = ''mock''\<rparr> \<and>
   calculate_confidence_score ''excellent breakthrough in medicine''
     (MockAnalyzer_analyze_text 1 ''excellent breakthrough in medicine'')
     [''excellent'', ''breakthrough'', ''medicine''] = Inr (4 / 5) \<and>
   (14::real) / 25 = min (4 / 5 * 0.7) 0.8 \<and> (14::real) / 25 \<le> 0.8"
proof -
  have h: "snd (analyze_text_complete env_unconfigured w0 ''excellent breakthrough in medicine'') =
     Inr \<lparr>summary = JStr
            ''This text discusses excellent breakthrough in medicine and provides brief information on the topic.'',
          title = JStr ''Excellent Breakthrough In Medicine'',
          topics = JArr [JStr ''health'', JStr ''wellness'', JStr ''medical''],
          sentiment = JStr ''positive'',
          keywords' = [''excellent'', ''breakthrough'', ''medicine''],
          confidence_score = 14 / 25, analysis_method = ''mock''\<rparr>"
    by code_simp
  have b: "calculate_confidence_score ''excellent breakthrough in medicine''
     (MockAnalyzer_analyze_text 1 ''excellent breakthrough in medicine'')
     [''excellent'', ''breakthrough'', ''medicine''] = Inr (4 / 5)"
    by code_simp
  from fallback_score_discounted [OF h] h b show ?thesis by simp
qed

text \<open>
  C10. On the fallback path the confidence score is at most 0.7: the scorer's score is
  at most 1 before it is multiplied by 0.7, so the cap at 0.8 is never reached.
\<close>

theorem fallback_score_at_most_seven_tenths:
  assumes "snd (analyze_text_complete env w text) = Inr r"
    and "analysis_method r = ''mock''"
  shows "confidence_score r \<le> 0.7"
  using assms(1)
proof (cases rule: atc_result_cases)
  case (primary d)
  with assms(2) show ?thesis by simp
next
  case (fallback e s)
  from score_bounds [OF fallback(2)] have "s \<le> 1" by simp
  with fallback(3) show ?thesis by simp
qed

theorem fallback_score_at_most_seven_tenths_witness:
  "(\<exists>r. snd (analyze_text_complete env_unconfigured w0 ''excellent breakthrough in medicine'') = Inr r \<and>
     analysis_method r = ''mock'' \<and> confidence_score r = 14 / 25 \<and> confidence_score r \<le> 0.7)"
proof -
  define r where "r = \<lparr>summary = JStr
            ''This text discusses excellent breakthrough in medicine and provides brief information on the topic.'',
          title = JStr ''Excellent Breakthrough In Medicine'',
          topics = JArr [JStr ''health'', JStr ''wellness'', JStr ''medical''],
          sentiment = JStr ''positive'',
          keywords' = [''excellent'', ''breakthrough'', ''medicine''],
          confidence_score = 14 / 25, analysis_method = ''mock''\<rparr>"
  have h: "snd (analyze_text_complete env_unconfigured w0 ''excellent breakthrough in medicine'') = Inr r"
    unfolding r_def by code_simp
  have m: "analysis_method r = ''mock''" and c: "confidence_score r = 14 / 25"
    by (simp_all add: r_def)
  from fallback_score_at_most_seven_tenths [OF h m] h m c show ?thesis by blast
qed

text \<open>
  C5. When the key is not set, is empty or is the placeholder, the constructor of the
  primary analyzer raises; the \<open>try\<close> block ends with the world as it was, so no
  request was sent; and for every input that is not empty after trimming
  \<open>analyze_text_complete\<close> returns a result whose \<open>analysis_method\<close> is the fallback's.
\<close>

theorem unconfigured_falls_back:
  assumes "api_key env = None \<or> api_key env = Some [] \<or>
           api_key env = Some ''your_openai_api_key_here''"
  shows "(\<exists>e. LLMAnalyzer_init env = Inl e \<and> try_primary env w text = (w, Inl e)) \<and>
         (py_strip text \<noteq> [] \<longrightarrow>
            (\<exists>r. analyze_text_complete env w text = (w, Inr r) \<and> analysis_method r = ''mock''))"
proof -
  let ?e = "ValueError
    ''OpenAI API key not configured. Please set OPENAI_API_KEY in your environment.''"
  have i: "LLMAnalyzer_init env = Inl ?e"
    by (rule unconfigured_init [OF assms])
  then have tp: "try_primary env w text = (w, Inl ?e)"
    by (simp add: try_primary_def)
  have "\<exists>r. analyze_text_complete env w text = (w, Inr r) \<and> analysis_method r = ''mock''"
    if ne: "py_strip text \<noteq> []"
  proof -
    obtain s where s: "calculate_confidence_score text
        (MockAnalyzer_analyze_text (random_choice env) text) (extract_keywords env text 3) = Inr s"
      using mock_scores by blast
    from atc_mock [OF ne tp s] show ?thesis by simp
  qed
  with i tp show ?thesis by blast
qed

theorem unconfigured_falls_back_witness:
  "api_key env_unconfigured = None \<and>
   py_strip ''excellent breakthrough in medicine'' \<noteq> [] \<and>
   (\<exists>e. LLMAnalyzer_init env_unconfigured = Inl e) \<and>
   (\<exists>r. analyze_text_complete env_unconfigured w0 ''excellent breakthrough in medicine'' = (w0, Inr r) \<and>
        analysis_method r = ''mock'')"
proof -
  have k: "api_key env_unconfigured = None"
    by (simp add: env_unconfigured_def)
  have ne: "py_strip ''excellent breakthrough in medicine'' \<noteq> []"
    by code_simp
  from unconfigured_falls_back [of env_unconfigured w0 "''excellent breakthrough in medicine''"] k ne
  show ?thesis by blast
qed

subsection \<open>When the call returns\<close>

lemma good_summary_returns:
  "(\<exists>g. good_summary d = Inr g) =
   (is_str (dict_get d ''summary'' (JStr [])) \<or> \<not> truthy (dict_get d ''summary'' (JStr [])))"
  by (cases "dict_get d ''summary'' (JStr [])") (auto simp add: good_summary_def)

lemma good_summary_error: "good_summary d = Inl e \<Longrightarrow> \<exists>m. e = AttributeError m"
  by (cases "dict_get d ''summary'' (JStr [])")
     (auto simp add: good_summary_def split: if_splits)

lemma py_len_error: "py_len v = Inl e \<Longrightarrow> \<exists>m. e = TypeError m"
  by (cases v) auto

text \<open>The scorer raises no \<open>ValueError\<close>.\<close>

lemma scorer_error:
  assumes "calculate_confidence_score text d kws = Inl e"
  shows "(\<exists>m. e = AttributeError m) \<or> (\<exists>m. e = TypeError m)"
  using assms good_summary_error [of d e] py_len_error [of "dict_get d ''topics'' (JArr [])" e]
  by (auto simp add: score_sum split: sum.splits)

lemma py_len_returns: "(\<exists>n. py_len v = Inr n) = sized v"
  by (cases v) simp_all

lemma scorer_returns:
  "(\<exists>s. calculate_confidence_score text d kws = Inr s) = well_typed d"
proof -
  have "(\<exists>s. calculate_confidence_score text d kws = Inr s) =
        ((\<exists>g. good_summary d = Inr g) \<and> (\<exists>n. py_len (dict_get d ''topics'' (JArr [])) = Inr n))"
    by (auto simp add: score_sum split: sum.splits)
  then show ?thesis
    by (simp only: good_summary_returns py_len_returns well_typed_def)
qed

text \<open>
  What holds of the outcome: \<open>analyze_text_complete\<close> raises the empty-input error
  exactly when the text is empty after trimming. For every other text it returns a
  result, with the keywords of the extractor and one of the two methods, provided that
  the output of the primary analyzer, when the primary analyzer returns one, is well
  typed for the scorer; on the fallback path it always returns.
\<close>

lemma analyze_text_complete_outcome:
  "(snd (analyze_text_complete env w text) = Inl (ValueError ''Empty input text'')
      \<longleftrightarrow> py_strip text = []) \<and>
   (py_strip text \<noteq> [] \<and> (\<forall>d. snd (try_primary env w text) = Inr d \<longrightarrow> well_typed d) \<longrightarrow>
      (\<exists>r. snd (analyze_text_complete env w text) = Inr r \<and>
           keywords' r = extract_keywords env text 3 \<and>
           (analysis_method r = ''openai'' \<or> analysis_method r = ''mock'')))"
proof -
  obtain w' attempt where tp: "try_primary env w text = (w', attempt)"
    by (cases "try_primary env w text")
  obtain s where s: "calculate_confidence_score text
      (MockAnalyzer_analyze_text (random_choice env) text) (extract_keywords env text 3) = Inr s"
    using mock_scores by blast
  have not_empty_error:
    "snd (analyze_text_complete env w text) \<noteq> Inl (ValueError ''Empty input text'')"
    if ne: "py_strip text \<noteq> []"
  proof (cases attempt)
    case (Inl e)
    from atc_mock [OF ne tp [unfolded Inl] s] show ?thesis by simp
  next
    case (Inr d)
    from atc_openai [OF ne tp [unfolded Inr]] show ?thesis
      by (auto split: sum.splits dest: scorer_error)
  qed
  have returns: "\<exists>r. snd (analyze_text_complete env w text) = Inr r \<and>
           keywords' r = extract_keywords env text 3 \<and>
           (analysis_method r = ''openai'' \<or> analysis_method r = ''mock'')"
    if ne: "py_strip text \<noteq> []"
      and wt: "\<forall>d. snd (try_primary env w text) = Inr d \<longrightarrow> well_typed d"
  proof (cases attempt)
    case (Inl e)
    from atc_mock [OF ne tp [unfolded Inl] s] show ?thesis by simp
  next
    case (Inr d)
    from wt tp Inr have "well_typed d" by simp
    then obtain s' where
      "calculate_confidence_score text d (extract_keywords env text 3) = Inr s'"
      using scorer_returns by blast
    with atc_openai [OF ne tp [unfolded Inr]] show ?thesis by simp
  qed
  from not_empty_error returns atc_empty [of "text" env w] show ?thesis
    by (cases "py_strip text = []") auto
qed

text \<open>
  The scorer is called after the \<open>try\<close> block. When the primary analyzer returns an
  output whose topics have no length, the \<open>TypeError\<close> of \<open>len(topics)\<close> leaves
  \<open>analyze_text_complete\<close>.
\<close>

lemma unsized_topics_raise:
  assumes "py_strip text \<noteq> []" and "snd (try_primary env w text) = Inr d"
    and "good_summary d = Inr g" and "\<not> sized (dict_get d ''topics'' (JArr []))"
  shows "\<exists>m. snd (analyze_text_complete env w text) = Inl (TypeError m)"
proof -
  obtain w' where tp: "try_primary env w text = (w', Inr d)"
    using assms(2) by (cases "try_primary env w text") simp
  from assms(4) obtain e where e: "py_len (dict_get d ''topics'' (JArr [])) = Inl e"
    using py_len_returns [of "dict_get d ''topics'' (JArr [])"]
    by (cases "py_len (dict_get d ''topics'' (JArr []))") auto
  then obtain m where m: "e = TypeError m"
    using py_len_error by blast
  from assms(3) e have "calculate_confidence_score text d (extract_keywords env text 3) = Inl e"
    by (simp add: score_sum)
  with atc_openai [OF assms(1) tp] m show ?thesis by simp
qed

text \<open>
  C4. The claim: for every text that is not empty after trimming,
  \<open>analyze_text_complete\<close> returns a complete result, and no failure other than the
  empty-input error leaves it. The code does so on the fallback path and for every
  output of the primary analyzer on which the scorer returns
  (\<open>analyze_text_complete_outcome\<close>). It does not when the key is set and the service
  replies with a JSON object whose \<open>topics\<close> is \<open>null\<close>: the primary analyzer returns
  the object, the scorer's \<open>len(topics)\<close> raises a \<open>TypeError\<close> outside the \<open>try\<close> block,
  and the error leaves \<open>analyze_text_complete\<close> for a text that is not empty. An
  object that has no \<open>topics\<close> at all is scored, the scorer reading \<open>[]\<close> for it.
\<close>

theorem null_topics_type_error:
  "py_strip ''the cat sat on the mat'' \<noteq> [] \<and>
   snd (try_primary env_null_topics w0 ''the cat sat on the mat'') =
     Inr [(''summary'', JStr ''Cats sit on mats all day long.''), (''topics'', JNull)] \<and>
   analyze_text_complete env_null_topics w0 ''the cat sat on the mat'' =
     (\<lparr>requests = [''the cat sat on the mat'']\<rparr>, Inl (TypeError ''object has no len()'')) \<and>
   calculate_confidence_score ''the cat sat on the mat''
     [(''summary'', JStr ''Cats sit on mats all day long.'')] [''cat'', ''sat'', ''mat''] = Inr (1 / 2)"
  by code_simp

section \<open>Claims about the scorer\<close>

text \<open>
  C1, as amended. For an analyzer output whose summary is a string (or is missing) and
  whose topics are a list (or are missing), the scorer returns the sum of these
  contributions, clamped to the interval from 0 to 1: 0.2 when the trimmed text has
  more than 10 characters, 0.1 when it has more than 100, 0.1 when it has more than
  500, 0.2 when the trimmed summary has more than 20 characters, 0.1 when the title
  has the truth value true (it is neither missing, nor \<open>null\<close>, nor empty), 0.1 for
  three topics or more and 0.05 for two, 0.1 for three keywords or more and 0.05 for
  two, 0.1 when the sentiment is not \<open>"neutral"\<close>.
\<close>

theorem calculate_confidence_score_sum:
  assumes "dict_get d ''summary'' (JStr []) = JStr s"
    and "dict_get d ''topics'' (JArr []) = JArr ts"
  shows "calculate_confidence_score text d kws =
    Inr (min (max (points text (20 < length (py_strip s)) (dict_get d ''title'' JNull)
        (length ts) (length kws) (dict_get d ''sentiment'' (JStr ''neutral''))) 0) 1)"
proof -
  have "good_summary d = Inr (20 < length (py_strip s))"
    using assms(1) by (cases "s = []") (simp_all add: good_summary_def)
  then show ?thesis
    using assms(2) by (simp add: score_sum)
qed

text \<open>
  The scenario of C1: a text of 600 characters, a full analyzer output with the
  sentiment \<open>"positive"\<close> and three keywords score 1.
\<close>

theorem calculate_confidence_score_sum_witness:
  "length scenario_text = 600 \<and>
   calculate_confidence_score scenario_text
     [(''summary'', JStr ''A summary of more than twenty characters.''), (''title'', JStr ''T''),
      (''topics'', JArr [JStr ''a'', JStr ''b'', JStr ''c'']), (''sentiment'', JStr ''positive'')]
     [''k1'', ''k2'', ''k3''] = Inr 1"
proof -
  let ?d = "[(''summary'', JStr ''A summary of more than twenty characters.''), (''title'', JStr ''T''),
      (''topics'', JArr [JStr ''a'', JStr ''b'', JStr ''c'']), (''sentiment'', JStr ''positive'')]"
  have l: "length scenario_text = 600"
    by (simp add: scenario_text_def)
  have a: "dict_get ?d ''summary'' (JStr []) = JStr ''A summary of more than twenty characters.''"
    by code_simp
  have b: "dict_get ?d ''topics'' (JArr []) = JArr [JStr ''a'', JStr ''b'', JStr ''c'']"
    by code_simp
  have p: "min (max (points scenario_text
      (20 < length (py_strip ''A summary of more than twenty characters.''))
      (dict_get ?d ''title'' JNull) (length [JStr ''a'', JStr ''b'', JStr ''c''])
      (length [''k1'', ''k2'', ''k3'']) (dict_get ?d ''sentiment'' (JStr ''neutral''))) 0) 1 = 1"
    by code_simp
  from calculate_confidence_score_sum [OF a b, of scenario_text "[''k1'', ''k2'', ''k3'']"] p l
  show ?thesis by simp
qed

text \<open>
  C1 as stated fails on a title that is the empty string: it is not \<open>null\<close>, so the
  claim adds 0.1 for it, and the scorer does not.
\<close>

theorem empty_title_counterexample:
  "calculate_confidence_score ''hello world!''
     [(''summary'', JStr []), (''title'', JStr []), (''topics'', JArr []),
      (''sentiment'', JStr ''neutral'')] [] = Inr (2 / 10) \<and>
   claimed_score ''hello world!'' [] (JStr []) [] (JStr ''neutral'') [] = 3 / 10"
  by code_simp

subsection \<open>Replies that are not JSON\<close>

lemma no_match_degraded:
  assumes "chat_create env text = Inr reply" and "re_search_braces (py_strip reply) = None"
  shows "snd (LLMAnalyzer_analyze_text env w text) =
    Inr [(''summary'', JStr (py_strip reply)), (''title'', JNull),
         (''topics'', JArr [JStr ''general'']), (''sentiment'', JStr ''neutral'')]"
  using assms by (simp add: LLMAnalyzer_analyze_text_def Let_def)

lemma unparseable_match_raises:
  assumes "chat_create env text = Inr reply" and "re_search_braces (py_strip reply) = Some m"
    and "json_loads env m = Inl e"
  shows "snd (LLMAnalyzer_analyze_text env w text) =
    Inl (Exception (''OpenAI API error: '' @ str e))"
  using assms by (simp add: LLMAnalyzer_analyze_text_def Let_def)

text \<open>
  A reply without an opening brace that a closing brace follows: the whole trimmed
  reply is the summary, and the result is the primary analyzer's.
\<close>

lemma no_match_primary:
  assumes "LLMAnalyzer_init env = Inr ()" and "chat_create env text = Inr reply"
    and "re_search_braces (py_strip reply) = None" and "py_strip text \<noteq> []"
  shows "\<exists>r. snd (analyze_text_complete env w text) = Inr r \<and>
    analysis_method r = ''openai'' \<and> summary r = JStr (py_strip reply) \<and> title r = JNull \<and>
    topics r = JArr [JStr ''general''] \<and> sentiment r = JStr ''neutral''"
proof -
  let ?d = "[(''summary'', JStr (py_strip reply)), (''title'', JNull),
         (''topics'', JArr [JStr ''general'']), (''sentiment'', JStr ''neutral'')]"
  obtain w' where tp: "try_primary env w text = (w', Inr ?d)"
    using no_match_degraded [OF assms(2,3), of w] assms(1)
    by (cases "LLMAnalyzer_analyze_text env w text") (simp add: try_primary_def)
  have "well_typed ?d"
    by (simp add: well_typed_def dict_get_def)
  then obtain s where
    "calculate_confidence_score text ?d (extract_keywords env text 3) = Inr s"
    using scorer_returns by blast
  with atc_openai [OF assms(4) tp] show ?thesis
    by (simp add: dict_get_def)
qed

text \<open>
  C7. The claim: whenever no well-formed JSON object can be taken from the reply, the
  primary analyzer returns the whole reply as the summary, with no title, the topic
  \<open>general\<close> and the sentiment \<open>neutral\<close>, and the result is still the primary
  analyzer's. The code does so when the reply has no braces (\<open>no_match_primary\<close>).
  It does not when the reply has braces around text that is not JSON: for the reply
  \<open>The text is about {cats} and mats.\<close> the regular expression matches \<open>{cats}\<close>,
  \<open>json.loads\<close> raises, \<open>analyze_text\<close> raises in turn, and the result is the fallback
  analyzer's.
\<close>

theorem braces_reply_falls_back:
  "re_search_braces (py_strip ''The text is about {cats} and mats.'') = Some ''{cats}'' \<and>
   snd (LLMAnalyzer_analyze_text env_braces w0 ''the cat sat on the mat'') =
     Inl (Exception
       ''OpenAI API error: Expecting property name enclosed in double quotes: line 1 column 2 (char 1)'') \<and>
   snd (analyze_text_complete env_braces w0 ''the cat sat on the mat'') =
     Inr \<lparr>summary = JStr
            ''This text discusses the cat sat on the and provides brief information on the topic.'',
          title = JStr ''The Cat Sat On The'',
          topics = JArr [JStr ''health'', JStr ''wellness'', JStr ''medical''],
          sentiment = JStr ''neutral'', keywords' = [''cat'', ''sat'', ''mat''],
          confidence_score = 49 / 100, analysis_method = ''mock''\<rparr>"
  by code_simp

section \<open>Claims about the fallback analyzer\<close>

lemma py_in_iff: "py_in w s \<longleftrightarrow> (\<exists>ps ss. s = ps @ w @ ss)"
proof (induction s)
  case Nil
  then show ?case by auto
next
  case (Cons c cs)
  have "(\<exists>ps ss. c # cs = ps @ w @ ss) \<longleftrightarrow> prefix w (c # cs) \<or> (\<exists>ps ss. cs = ps @ w @ ss)"
    (is "?L \<longleftrightarrow> ?R")
  proof
    assume ?L
    then obtain ps ss where e: "c # cs = ps @ w @ ss" by blast
    show ?R
    proof (cases ps)
      case Nil
      with e show ?thesis by (auto simp add: prefix_def)
    next
      case (Cons p ps')
      with e have "cs = ps' @ w @ ss" by simp
      then show ?thesis by blast
    qed
  next
    assume ?R
    then show ?L
    proof
      assume "prefix w (c # cs)"
      then obtain ss where "c # cs = w @ ss" by (auto simp add: prefix_def)
      then have "c # cs = [] @ w @ ss" by simp
      then show ?L by blast
    next
      assume "\<exists>ps ss. cs = ps @ w @ ss"
      then obtain ps ss where "cs = ps @ w @ ss" by blast
      then have "c # cs = (c # ps) @ w @ ss" by simp
      then show ?L by blast
    qed
  qed
  with Cons show ?case by simp
qed

lemma code_inj: "code a = code b \<longleftrightarrow> a = b"
  by (simp add: code_def)

lemma code_char_of: "n < 256 \<Longrightarrow> code (char_of n) = n"
  by (simp add: code_def)

lemma code_tolower: "code (tolower c) = (if isupper c then code c + 32 else code c)"
  by (auto simp add: tolower_def isupper_def code_char_of)

text \<open>Two characters have the same lower case exactly when they are the same letter.\<close>

lemma tolower_same_letter: "tolower a = tolower b \<longleftrightarrow> same_letter a b"
proof -
  have "tolower a = tolower b \<longleftrightarrow> code (tolower a) = code (tolower b)"
    by (simp only: code_inj)
  also have "\<dots> \<longleftrightarrow> same_letter a b"
    unfolding code_tolower same_letter_def
    using code_inj [of a b] by (auto simp add: isupper_def)
  finally show ?thesis .
qed

lemma py_lower_same_letter: "py_lower u = py_lower w \<longleftrightarrow> list_all2 same_letter u w"
proof (induction u arbitrary: w)
  case Nil
  show ?case by (auto simp add: py_lower_def)
next
  case (Cons a u)
  show ?case
  proof (cases w)
    case Nil
    then show ?thesis by (simp add: py_lower_def)
  next
    case (Cons b w')
    with Cons.IH [of w'] show ?thesis
      by (simp add: py_lower_def tolower_same_letter)
  qed
qed

lemma py_in_lower:
  "py_in (py_lower word) (py_lower text) \<longleftrightarrow> ci_occurs word text"
proof
  assume "py_in (py_lower word) (py_lower text)"
  then obtain ps ss where e: "py_lower text = ps @ py_lower word @ ss"
    unfolding py_in_iff by blast
  define n where "n = length ps"
  define m where "m = length (py_lower word)"
  define u where "u = take m (drop n text)"
  have "py_lower u = take m (drop n (py_lower text))"
    by (simp add: u_def py_lower_def take_map drop_map)
  also have "\<dots> = py_lower word"
    by (simp add: e n_def m_def)
  finally have l: "list_all2 same_letter u word"
    by (simp only: py_lower_same_letter)
  have "text = take n text @ drop n text"
    by simp
  also have "drop n text = u @ drop m (drop n text)"
    by (simp only: u_def append_take_drop_id)
  finally have "text = take n text @ u @ drop m (drop n text)" .
  with l show "ci_occurs word text"
    unfolding ci_occurs_def by blast
next
  assume "ci_occurs word text"
  then obtain ps u ss where t: "text = ps @ u @ ss" and "list_all2 same_letter u word"
    unfolding ci_occurs_def by blast
  then have l: "py_lower u = py_lower word"
    by (simp only: py_lower_same_letter)
  from t have "py_lower text = py_lower ps @ py_lower u @ py_lower ss"
    by (simp add: py_lower_def)
  with l show "py_in (py_lower word) (py_lower text)"
    unfolding py_in_iff by metis
qed

lemma keyword_count_card:
  assumes "distinct ws" and "\<forall>w\<in>set ws. py_lower w = w"
  shows "keyword_count ws (py_lower text) = card {word \<in> set ws. ci_occurs word text}"
proof -
  have "filter (\<lambda>word. py_in word (py_lower text)) ws = filter (\<lambda>word. ci_occurs word text) ws"
  proof (rule filter_cong [OF refl])
    fix w assume "w \<in> set ws"
    with assms(2) have "py_lower w = w" by blast
    with py_in_lower [of w "text"] show "py_in w (py_lower text) = ci_occurs w text"
      by simp
  qed
  then have "keyword_count ws (py_lower text) = length (filter (\<lambda>word. ci_occurs word text) ws)"
    by (simp add: keyword_count_def)
  also have "\<dots> = card ({word. ci_occurs word text} \<inter> set ws)"
    by (rule distinct_length_filter [OF assms(1)])
  also have "{word. ci_occurs word text} \<inter> set ws = {word \<in> set ws. ci_occurs word text}"
    by blast
  finally show ?thesis .
qed

lemma positive_keywords_lower: "distinct positive_keywords" "\<forall>w\<in>set positive_keywords. py_lower w = w"
  by code_simp+

lemma negative_keywords_lower: "distinct negative_keywords" "\<forall>w\<in>set negative_keywords. py_lower w = w"
  by code_simp+

text \<open>
  C8, as amended. The sentiment of the fallback analyzer is \<open>positive\<close> when more words
  of the positive list than of the negative list occur in the text, letter case apart,
  \<open>negative\<close> when more of the negative list occur, and \<open>neutral\<close> otherwise, a word
  that occurs being counted once however often it occurs. The text
  \<open>excellent breakthrough in medicine\<close> has the sentiment \<open>positive\<close>, and so has it
  in capital letters; a text with one word of the positive list and two of the negative
  list, in mixed case, has the sentiment \<open>negative\<close>.
\<close>

theorem mock_sentiment_counts:
  "mock_sentiment text = spec_sentiment text \<and>
   dict_get (MockAnalyzer_analyze_text rnd text) ''sentiment'' (JStr ''neutral'') =
     JStr (mock_sentiment text) \<and>
   mock_sentiment ''excellent breakthrough in medicine'' = ''positive'' \<and>
   mock_sentiment ''EXCELLENT Breakthrough In Medicine'' = ''positive'' \<and>
   mock_sentiment ''A Great start, a TERRIBLE middle and an Awful end'' = ''negative'' \<and>
   mock_sentiment ''the cat sat on the mat'' = ''neutral''"
proof -
  have "mock_sentiment text = spec_sentiment text"
    unfolding mock_sentiment_def spec_sentiment_def Let_def
    by (simp only: keyword_count_card [OF positive_keywords_lower]
        keyword_count_card [OF negative_keywords_lower])
  moreover have "mock_sentiment ''excellent breakthrough in medicine'' = ''positive''"
    by code_simp
  moreover have "mock_sentiment ''EXCELLENT Breakthrough In Medicine'' = ''positive''"
    by code_simp
  moreover have
    "mock_sentiment ''A Great start, a TERRIBLE middle and an Awful end'' = ''negative''"
    by code_simp
  moreover have "mock_sentiment ''the cat sat on the mat'' = ''neutral''"
    by code_simp
  ultimately show ?thesis by simp
qed

text \<open>
  C8 as stated fails on a text in which a word occurs more than once: in
  \<open>great great great terrible awful\<close> there are three occurrences of a word of the
  positive list and two occurrences of words of the negative list, so the claim gives
  \<open>positive\<close>; the fallback analyzer counts one word of the positive list and two of
  the negative list, and gives \<open>negative\<close>.
\<close>

theorem repeated_word_counterexample:
  "mock_sentiment ''great great great terrible awful'' = ''negative'' \<and>
   claimed_sentiment ''great great great terrible awful'' = ''positive'' \<and>
   occurrences ''great'' ''great great great terrible awful'' = 3 \<and>
   keyword_count positive_keywords ''great great great terrible awful'' = 1 \<and>
   keyword_count negative_keywords ''great great great terrible awful'' = 2"
  by code_simp

subsection \<open>The title\<close>

text \<open>
  \<open>split()\<close> gives words that are not empty and have no white space, and together
  they are the text without its white space.
\<close>

lemma split_ws_words:
  "(\<forall>c\<in>set w. \<not> isspace c) \<Longrightarrow> v \<in> set (split_ws w s) \<Longrightarrow> v \<noteq> [] \<and> (\<forall>c\<in>set v. \<not> isspace c)"
proof (induction w s rule: split_ws.induct)
  case (1 w)
  then show ?case by (cases "w = []") auto
next
  case (2 w c cs)
  show ?case
  proof (cases "isspace c")
    case True
    show ?thesis
    proof (cases "w = []")
      case True
      from 2(5) \<open>isspace c\<close> True have "v \<in> set (split_ws [] cs)" by simp
      with 2(1) [OF \<open>isspace c\<close> True] show ?thesis by simp
    next
      case False
      with \<open>isspace c\<close> 2(5) have "v = w \<or> v \<in> set (split_ws [] cs)" by simp
      then show ?thesis
      proof
        assume "v = w"
        with False 2(4) show ?thesis by simp
      next
        assume "v \<in> set (split_ws [] cs)"
        with 2(2) [OF True False] show ?thesis by simp
      qed
    qed
  next
    case False
    with 2(5) have "v \<in> set (split_ws (w @ [c]) cs)" by simp
    moreover from False 2(4) have "\<forall>d\<in>set (w @ [c]). \<not> isspace d" by simp
    ultimately show ?thesis using 2(3) [OF False] by blast
  qed
qed

lemma split_ws_concat: "concat (split_ws w s) = w @ filter (\<lambda>c. \<not> isspace c) s"
  by (induction w s rule: split_ws.induct) simp_all

lemma py_split_words: "v \<in> set (py_split s) \<Longrightarrow> v \<noteq> [] \<and> (\<forall>c\<in>set v. \<not> isspace c)"
  using split_ws_words [of "[]" v s] by (simp add: py_split_def)

lemma py_split_concat: "concat (py_split s) = filter (\<lambda>c. \<not> isspace c) s"
  by (simp add: py_split_def split_ws_concat)

lemma words_of_Nil: "words_of [] = []"
  by (simp add: words_of.simps)

lemma words_of_space: "isspace c \<Longrightarrow> words_of (c # cs) = words_of cs"
  by (subst words_of.simps, subst (2) words_of.simps) simp

lemma words_of_word:
  "\<not> isspace c \<Longrightarrow>
   words_of (c # cs) =
     (c # takeWhile (\<lambda>c. \<not> isspace c) cs) # words_of (dropWhile (\<lambda>c. \<not> isspace c) cs)"
  by (subst words_of.simps) simp

text \<open>\<open>split()\<close> gives the words of the text.\<close>

lemma split_ws_words_of:
  "split_ws w s =
    (if w = [] then words_of s
     else (w @ takeWhile (\<lambda>c. \<not> isspace c) s) # words_of (dropWhile (\<lambda>c. \<not> isspace c) s))"
proof (induction s arbitrary: w)
  case Nil
  show ?case by (simp add: words_of_Nil)
next
  case (Cons c cs)
  show ?case
  proof (cases "isspace c")
    case True
    then show ?thesis
      by (simp add: Cons.IH [of "[]"] words_of_space)
  next
    case False
    then show ?thesis
      by (simp add: Cons.IH [of "w @ [c]"] words_of_word)
  qed
qed

lemma py_split_words_of: "py_split s = words_of s"
  by (simp add: py_split_def split_ws_words_of)

lemma py_join_concat:
  "py_join sep ws = (case ws of [] \<Rightarrow> [] | w # vs \<Rightarrow> w @ concat (map (\<lambda>v. sep @ v) vs))"
  by (induction sep ws rule: py_join.induct) simp_all

lemma py_join_joined: "py_join '' '' ws = joined ws"
  by (simp add: py_join_concat joined_def)

text \<open>\<open>title()\<close> gives the title-cased string.\<close>

lemma title_from_cased:
  "title_from (iscased b) s =
     concat (map2 (\<lambda>before c. if iscased before then [tolower c] else totitle c) (b # s) s)"
  by (induction s arbitrary: b) simp_all

lemma space_not_cased: "\<not> iscased (CHR '' '')"
  by (simp add: iscased_def isupper_def islower_def code_def)

lemma py_title_cased: "py_title s = title_cased s"
  using title_from_cased [of "CHR '' ''" s]
  by (simp add: py_title_def title_cased_def space_not_cased)

text \<open>
  C9, as amended. The title of the fallback analyzer is made of the first five words
  of the text, joined by single spaces; in that string every letter that follows a
  letter is lower-cased and every other letter is a capital, also a letter after a
  digit or an apostrophe. When the string has more than 50 characters, the title is
  its first 47 characters followed by three dots, 50 characters in all.
\<close>

theorem mock_title_truncated:
  "mock_title text =
     (let t = title_cased (joined (take 5 (words_of text)))
      in if 50 < length t then take 47 t @ ''...'' else t) \<and>
   length (mock_title text) \<le> 50 \<and>
   dict_get (MockAnalyzer_analyze_text rnd text) ''title'' JNull = JStr (mock_title text)"
proof -
  have a: "mock_title text =
     (let t = title_cased (joined (take 5 (words_of text)))
      in if 50 < length t then take 47 t @ ''...'' else t)"
    by (simp add: mock_title_def py_split_words_of py_join_joined py_title_cased Let_def)
  have b: "length (mock_title text) \<le> 50"
    by (simp add: mock_title_def Let_def)
  from a b show ?thesis by simp
qed

text \<open>
  Three titles: of a text in mixed case with more than five words, a tab and a no-break
  space between words; of a text whose first five words are too long; of a short text.
\<close>

theorem mock_title_truncated_witness:
  "mock_title (''  hELLO'' @ [CHR 0x09] @ ''wORLD,   it is'' @ [CHR 0xA0] @ ''the 2nd DAY of may'') =
     ''Hello World, It Is The'' \<and>
   mock_title
     ''internationalization of   TELECOMMUNICATIONS infrastructure notwithstanding everything else'' =
     ''Internationalization Of Telecommunications Infr...'' \<and>
   length ''Internationalization Of Telecommunications Infr...'' = 50 \<and>
   mock_title ''excellent breakthrough in medicine'' = ''Excellent Breakthrough In Medicine''"
proof -
  let ?s = "''  hELLO'' @ [CHR 0x09] @ ''wORLD,   it is'' @ [CHR 0xA0] @ ''the 2nd DAY of may''"
  let ?t = "''internationalization of   TELECOMMUNICATIONS infrastructure notwithstanding everything else''"
  let ?u = "''excellent breakthrough in medicine''"
  have a: "(let t = title_cased (joined (take 5 (words_of ?s)))
      in if 50 < length t then take 47 t @ ''...'' else t) = ''Hello World, It Is The''"
    by code_simp
  have b: "(let t = title_cased (joined (take 5 (words_of ?t)))
      in if 50 < length t then take 47 t @ ''...'' else t) =
      ''Internationalization Of Telecommunications Infr...''"
    by code_simp
  have c: "(let t = title_cased (joined (take 5 (words_of ?u)))
      in if 50 < length t then take 47 t @ ''...'' else t) =
      ''Excellent Breakthrough In Medicine''"
    by code_simp
  have l: "length ''Internationalization Of Telecommunications Infr...'' = 50"
    by simp
  from mock_title_truncated [of ?s] a have "mock_title ?s = ''Hello World, It Is The''"
    by (simp only:)
  moreover from mock_title_truncated [of ?t] b have "mock_title ?t =
    ''Internationalization Of Telecommunications Infr...''"
    by (simp only:)
  moreover from mock_title_truncated [of ?u] c have "mock_title ?u =
    ''Excellent Breakthrough In Medicine''"
    by (simp only:)
  ultimately show ?thesis using l by blast
qed

text \<open>
  C9 as stated fails on a word with an apostrophe or a digit before a letter. The
  words \<open>don't\<close> and \<open>3rd\<close>, title-cased, are \<open>Don't\<close> and \<open>3rd\<close>; the fallback
  analyzer gives \<open>Don'T\<close> and \<open>3Rd\<close>.
\<close>

theorem letter_after_apostrophe_counterexample:
  "mock_title ''don't stop the 3rd man'' = ''Don'T Stop The 3Rd Man'' \<and>
   claimed_title ''don't stop the 3rd man'' = ''Don't Stop The 3rd Man''"
  by code_simp

section \<open>Claims about the keyword extractor\<close>

lemma keys_counter_add:
  "fst ` set (counter_add kvs x) = insert x (fst ` set kvs)"
  by (induction kvs x rule: counter_add.induct) auto

lemma distinct_counter_add:
  "distinct (map fst kvs) \<Longrightarrow> distinct (map fst (counter_add kvs x))"
proof (induction kvs x rule: counter_add.induct)
  case (1 x)
  show ?case by simp
next
  case (2 y n kvs x)
  show ?case
  proof (cases "x = y")
    case True
    with 2(2) show ?thesis by simp
  next
    case False
    from 2(2) have d: "distinct (map fst kvs)" and y: "y \<notin> fst ` set kvs"
      by simp_all
    from y False keys_counter_add [of kvs x]
    have "y \<notin> fst ` set (counter_add kvs x)" by simp
    with 2(1) [OF False d] False show ?thesis by simp
  qed
qed

lemma cnt_counter_add:
  "cnt (counter_add kvs x) w = cnt kvs w + (if w = x then 1 else 0)"
  by (induction kvs x rule: counter_add.induct) (auto simp add: cnt_def)

lemma keys_fold: "fst ` set (foldl counter_add acc xs) = fst ` set acc \<union> set xs"
proof (induction xs arbitrary: acc)
  case Nil
  show ?case by simp
next
  case (Cons x xs)
  show ?case
    by (simp only: foldl_Cons Cons.IH keys_counter_add) auto
qed

lemma distinct_fold:
  "distinct (map fst acc) \<Longrightarrow> distinct (map fst (foldl counter_add acc xs))"
  by (induction xs arbitrary: acc) (simp_all add: distinct_counter_add)

lemma cnt_fold: "cnt (foldl counter_add acc xs) w = cnt acc w + count_list xs w"
  by (induction xs arbitrary: acc) (simp_all add: cnt_counter_add)

lemma Counter_keys: "fst ` set (Counter xs) = set xs"
  by (simp add: Counter_def keys_fold)

lemma Counter_distinct: "distinct (map fst (Counter xs))"
  by (simp add: Counter_def distinct_fold)

lemma Counter_count:
  assumes "(w, n) \<in> set (Counter xs)"
  shows "n = count_list xs w"
proof -
  from assms Counter_distinct [of xs] have "map_of (Counter xs) w = Some n"
    by simp
  then have "cnt (Counter xs) w = n"
    by (simp add: cnt_def)
  moreover have "cnt [] w = 0"
    by (simp add: cnt_def)
  then have "cnt (Counter xs) w = count_list xs w"
    by (simp add: Counter_def cnt_fold)
  ultimately show ?thesis by simp
qed

lemma most_common_length: "length (most_common n items) \<le> nat n"
  by (simp add: most_common_def)

lemma most_common_subset: "set (most_common n items) \<subseteq> set items"
proof -
  have "set (most_common n items) \<subseteq> set (sort_key (\<lambda>(word, count). - int count) items)"
    unfolding most_common_def by (rule set_take_subset)
  then show ?thesis by simp
qed

lemma most_common_distinct:
  "distinct (map fst items) \<Longrightarrow> distinct (map fst (most_common n items))"
proof -
  assume d: "distinct (map fst items)"
  let ?s = "sort_key (\<lambda>(word, count). - int count) items"
  from d have "distinct (map fst ?s)"
    by (simp add: distinct_map)
  then have "distinct (take (nat n) (map fst ?s))"
    by (rule distinct_take)
  then show ?thesis
    by (simp add: most_common_def take_map)
qed

lemma most_common_sorted:
  "sorted_wrt (\<lambda>a b. snd b \<le> snd a) (most_common n items)"
proof -
  let ?key = "\<lambda>(word, count). - int count"
  have "sorted (map ?key (sort_key ?key items))"
    by (rule sorted_sort_key)
  then have "sorted_wrt (\<lambda>a b. ?key a \<le> ?key b) (sort_key ?key items)"
    by (simp only: sorted_map)
  then have "sorted_wrt (\<lambda>a b. ?key a \<le> ?key b) (most_common n items)"
    unfolding most_common_def by (rule sorted_wrt_take)
  moreover have "(?key a \<le> ?key b) = (snd b \<le> snd a)" for a b :: "'a \<times> nat"
    by (cases a, cases b) simp
  ultimately show ?thesis by simp
qed

text \<open>
  The keywords are the most common of the counted words, on both paths.
\<close>

lemma extract_keywords_counted:
  "extract_keywords env text n = map fst (most_common n (Counter (candidates env text)))"
  by (cases "pos_tag_tokens env (py_lower text)")
     (simp_all add: extract_keywords_def tagged_keywords_def regex_keywords_def candidates_def)

text \<open>
  What the count of a word is on each path: when tokenizer and tagger raise, the number
  of times the regular expression finds the word in the lower-cased text, for a word
  that is no stop word; when they work, the number of its tokens that pass the noun
  filter.
\<close>

lemma count_list_filter:
  "count_list (filter P xs) k = (if P k then count_list xs k else 0)"
  by (induction xs) auto

lemma candidates_count_regex:
  assumes "pos_tag_tokens env (py_lower text) = Inl e"
  shows "count_list (candidates env text) k =
    (if k \<in> set (stop_words env) then 0 else token_frequency env text k)"
  using assms by (simp add: candidates_def token_frequency_def count_list_filter)

lemma candidates_count_nouns:
  assumes "pos_tag_tokens env (py_lower text) = Inr tagged_tokens"
  shows "count_list (candidates env text) k = count_list (nouns env tagged_tokens) k"
  using assms by (simp add: candidates_def)

lemma candidates_ok:
  assumes "k \<in> set (candidates env text)"
  shows "k \<notin> set (stop_words env) \<and> 2 < length k"
proof (cases "pos_tag_tokens env (py_lower text)")
  case (Inl e)
  with assms show ?thesis
    by (auto simp add: candidates_def re_findall_words_def)
next
  case (Inr tagged)
  with assms show ?thesis
    by (auto simp add: candidates_def nouns_def)
qed

text \<open>
  C6, as amended. For every text and every requested number \<open>n\<close>, the extractor
  returns at most \<open>n\<close> keywords (none when \<open>n\<close> is not positive); no keyword is a
  stop word or has two characters or fewer; no keyword is returned twice; each is one
  of the counted words, and the keywords are in the order of non-increasing count, the
  count of a word being the number of times it is among the counted words: the tokens
  that pass the noun filter when tokenizer and tagger work, the words of the regular
  expression when they raise. When they raise, this count is the frequency of the
  token in the input; when they work, it is not, a token with another tag not being
  counted. The extractor is a total function to lists of keywords: the \<open>except\<close>
  block takes every exception of the \<open>try\<close> block, and nothing in it raises.
\<close>

theorem extract_keywords_ranked:
  "length (extract_keywords env text n) \<le> nat n \<and>
   (\<forall>k\<in>set (extract_keywords env text n).
      k \<in> set (candidates env text) \<and> k \<notin> set (stop_words env) \<and> 2 < length k) \<and>
   sorted_wrt (\<lambda>a b. count_list (candidates env text) b \<le> count_list (candidates env text) a)
     (extract_keywords env text n) \<and>
   distinct (extract_keywords env text n) \<and>
   (\<forall>e. pos_tag_tokens env (py_lower text) = Inl e \<longrightarrow>
      sorted_wrt (\<lambda>a b. token_frequency env text b \<le> token_frequency env text a)
        (extract_keywords env text n))"
proof -
  let ?c = "candidates env text"
  let ?m = "most_common n (Counter ?c)"
  have e: "extract_keywords env text n = map fst ?m"
    by (rule extract_keywords_counted)
  have len: "length (extract_keywords env text n) \<le> nat n"
    using most_common_length [of n "Counter ?c"] by (simp add: e)
  have sub: "set ?m \<subseteq> set (Counter ?c)"
    by (rule most_common_subset)
  have mem: "k \<in> set ?c \<and> k \<notin> set (stop_words env) \<and> 2 < length k"
    if "k \<in> set (extract_keywords env text n)" for k
  proof -
    from that sub have "k \<in> fst ` set (Counter ?c)"
      unfolding e by auto
    then have "k \<in> set ?c"
      by (simp only: Counter_keys)
    with candidates_ok show ?thesis by blast
  qed
  have snd_count: "snd p = count_list ?c (fst p)" if "p \<in> set ?m" for p
    using that sub Counter_count [of "fst p" "snd p" ?c] by auto
  have "sorted_wrt (\<lambda>a b. snd b \<le> snd a) ?m"
    by (rule most_common_sorted)
  then have "sorted_wrt (\<lambda>a b. count_list ?c (fst b) \<le> count_list ?c (fst a)) ?m"
    by (rule sorted_wrt_mono_rel [rotated]) (simp add: snd_count)
  then have ord: "sorted_wrt (\<lambda>a b. count_list ?c b \<le> count_list ?c a)
      (extract_keywords env text n)"
    by (simp only: e sorted_wrt_map)
  have dis: "distinct (extract_keywords env text n)"
    unfolding e by (rule most_common_distinct [OF Counter_distinct])
  have freq: "sorted_wrt (\<lambda>a b. token_frequency env text b \<le> token_frequency env text a)
        (extract_keywords env text n)"
    if r: "pos_tag_tokens env (py_lower text) = Inl e" for e
  proof (rule sorted_wrt_mono_rel [OF _ ord])
    fix a b
    assume "a \<in> set (extract_keywords env text n)" and "b \<in> set (extract_keywords env text n)"
      and "count_list ?c b \<le> count_list ?c a"
    with mem [of a] mem [of b] candidates_count_regex [OF r]
    show "token_frequency env text b \<le> token_frequency env text a"
      by simp
  qed
  from len mem ord dis freq show ?thesis by blast
qed

text \<open>
  One sentence on both paths: with the tags, the two most common nouns; without them,
  the four most common words, in the order of their frequency in the sentence.
\<close>

theorem extract_keywords_ranked_witness:
  "extract_keywords env_tagged sentence 2 = [''dogs'', ''cat''] \<and>
   extract_keywords env_untagged sentence 4 = [''dogs'', ''cat'', ''chase'', ''bites''] \<and>
   count_list (candidates env_tagged sentence) ''cat'' \<le>
     count_list (candidates env_tagged sentence) ''dogs'' \<and>
   (\<exists>e. pos_tag_tokens env_untagged (py_lower sentence) = Inl e) \<and>
   token_frequency env_untagged sentence ''cat'' \<le> token_frequency env_untagged sentence ''dogs'' \<and>
   token_frequency env_untagged sentence ''bites'' \<le> token_frequency env_untagged sentence ''chase'' \<and>
   ''dogs'' \<notin> set (stop_words env_tagged) \<and> ''bites'' \<notin> set (stop_words env_untagged)"
proof -
  have a: "extract_keywords env_tagged sentence 2 = [''dogs'', ''cat'']"
    by code_simp
  have b: "extract_keywords env_untagged sentence 4 = [''dogs'', ''cat'', ''chase'', ''bites'']"
    by code_simp
  have r: "pos_tag_tokens env_untagged (py_lower sentence) = Inl (Exception ''Resource punkt not found.'')"
    by (simp add: env_untagged_def)
  from extract_keywords_ranked [of env_tagged sentence 2]
  have "count_list (candidates env_tagged sentence) ''cat'' \<le>
     count_list (candidates env_tagged sentence) ''dogs'' \<and>
     ''dogs'' \<notin> set (stop_words env_tagged)"
    unfolding a by simp
  moreover from extract_keywords_ranked [of env_untagged sentence 4] r
  have "token_frequency env_untagged sentence ''cat'' \<le> token_frequency env_untagged sentence ''dogs'' \<and>
     token_frequency env_untagged sentence ''bites'' \<le> token_frequency env_untagged sentence ''chase'' \<and>
     ''bites'' \<notin> set (stop_words env_untagged)"
    unfolding b by simp
  ultimately show ?thesis using a b r by blast
qed

text \<open>
  C6 as stated fails when tokenizer and tagger work: in \<open>run_text\<close> the token \<open>run\<close>
  occurs four times and the token \<open>cat\<close> twice, but \<open>run\<close> is tagged as a noun once
  only, so the extractor returns \<open>cat\<close> before \<open>run\<close>, against the order of their
  frequency in the input.
\<close>

theorem noun_count_counterexample:
  "extract_keywords env_run run_text 3 = [''cat'', ''run''] \<and>
   token_frequency env_run run_text ''cat'' = 2 \<and>
   token_frequency env_run run_text ''run'' = 4 \<and>
   count_list (candidates env_run run_text) ''cat'' = 2 \<and>
   count_list (candidates env_run run_text) ''run'' = 1 \<and>
   \<not> sorted_wrt (\<lambda>a b. token_frequency env_run run_text b \<le> token_frequency env_run run_text a)
       (extract_keywords env_run run_text 3)"
  by code_simp

end
